theory Spec2Isabelle
  imports Main "HOL-Library.Word"
begin

unbundle bit_operations_syntax

section \<open>The operating system as seen by shp\<close>

text \<open>
  shp.go is a sequence of system calls and prints, each \<^verbatim>\<open>handle\<close>d: the program is
  embedded as functions that pass the list of events performed so far and return it
  extended, together with either the exit code of \<^verbatim>\<open>os.Exit\<close> (\<open>Inl\<close>) or the value the
  Go function returns (\<open>Inr\<close>). What a system call answers is not decided by the program:
  it is read from a \<open>world\<close>, which may answer differently depending on everything that
  happened before the call.

  A Go \<^verbatim>\<open>error\<close> is \<open>None\<close> for \<^verbatim>\<open>nil\<close> and \<open>Some s\<close> for an error whose \<^verbatim>\<open>Error()\<close>
  text is \<open>s\<close>.
\<close>

type_synonym error = "string option"

text \<open>The three standard streams of the process (\<^verbatim>\<open>os.Stdin\<close>, \<^verbatim>\<open>os.Stdout\<close>,
  \<^verbatim>\<open>os.Stderr\<close>).\<close>

datatype stream = os_Stdin | os_Stdout | os_Stderr

text \<open>The fields of \<^verbatim>\<open>exec.Cmd\<close> that \<^verbatim>\<open>exec.Command\<close> and shp.go set: a stream that is
  \<open>None\<close> is \<^verbatim>\<open>nil\<close>, \<open>Cloneflags\<close> is \<^verbatim>\<open>SysProcAttr.Cloneflags\<close> (zero when
  \<^verbatim>\<open>SysProcAttr\<close> is \<^verbatim>\<open>nil\<close>), and \<open>Err\<close> is the error that \<^verbatim>\<open>exec.Command\<close> stores when
  its lookup of the executable fails.\<close>

record Cmd =
  Path :: string
  Args :: "string list"
  Stdin :: "stream option"
  Stdout :: "stream option"
  Stderr :: "stream option"
  Cloneflags :: "64 word"
  Err :: error

datatype call =
    Stat string
  | Getwd
  | MkdirAll string nat
  | PivotRoot string string
  | Chdir string
  | Unmount string int
  | Remove string
  | Chroot string
  | Mount string string string "64 word" string
  | LookPath string
  | Run Cmd

datatype event = Out string | Sys call

text \<open>What \<^verbatim>\<open>cmd.Run()\<close> can answer: \<^verbatim>\<open>nil\<close> (the command ran and exited with status
  zero), an \<^verbatim>\<open>*exec.ExitError\<close> (it ran and did not exit with status zero: the exit code,
  which is -1 for a process killed by a signal, and the error's text), or another error (it
  could not be started).\<close>

datatype run_result = RunOk | ExitError int string | RunFailed string

text \<open>\<^verbatim>\<open>exec.LookPath(file)\<close> is kept as one call, as \<^verbatim>\<open>os.MkdirAll\<close> and \<^verbatim>\<open>os.Remove\<close>
  are: for a name with a separator it is one \<^verbatim>\<open>os.Stat\<close> of the name and a check of its
  mode, for a name without one it is a search of the directories of \<^verbatim>\<open>$PATH\<close>. The world
  answers the path found (empty when none) and the error.\<close>

record world =
  sys :: "event list \<Rightarrow> call \<Rightarrow> error"
  cwd :: "event list \<Rightarrow> string + string"
  lookPath :: "event list \<Rightarrow> string \<Rightarrow> string \<times> error"
  wait :: "event list \<Rightarrow> Cmd \<Rightarrow> run_result"

type_synonym 'a proc = "event list \<Rightarrow> event list \<times> (int + 'a)"

definition ret :: "'a \<Rightarrow> 'a proc" where
  "ret v t = (t, Inr v)"

definition bindp :: "'a proc \<Rightarrow> ('a \<Rightarrow> 'b proc) \<Rightarrow> 'b proc" where
  "bindp m f t = (case m t of (t', Inl c) \<Rightarrow> (t', Inl c) | (t', Inr v) \<Rightarrow> f v t')"

definition os_Exit :: "int \<Rightarrow> 'a proc" where
  "os_Exit c t = (t, Inl c)"

definition Print :: "string \<Rightarrow> unit proc" where
  "Print s t = (t @ [Out s], Inr ())"

definition Println :: "string \<Rightarrow> unit proc" where
  "Println s = Print (s @ [CHR 0x0A])"

definition syscall :: "world \<Rightarrow> call \<Rightarrow> error proc" where
  "syscall w c t = (t @ [Sys c], Inr (sys w t c))"

definition os_Getwd :: "world \<Rightarrow> (string + string) proc" where
  "os_Getwd w t = (t @ [Sys Getwd], Inr (cwd w t))"

section \<open>The library functions on strings and paths\<close>

text \<open>\<^verbatim>\<open>strings.Split(s, "/")\<close>, for a separator of one byte: one more piece than there
  are separators.\<close>

fun strings_Split :: "string \<Rightarrow> char \<Rightarrow> string list" where
  "strings_Split [] sep = [[]]"
| "strings_Split (x # xs) sep =
     (if x = sep then [] # strings_Split xs sep
      else (let r = strings_Split xs sep in (x # hd r) # tl r))"

fun strings_Join :: "string list \<Rightarrow> string \<Rightarrow> string" where
  "strings_Join [] sep = []"
| "strings_Join [e] sep = e"
| "strings_Join (e # es) sep = e @ sep @ strings_Join es sep"

text \<open>\<^verbatim>\<open>filepath.Clean\<close> on Unix (no volume name). \<open>out\<close> is the buffer written so far,
  \<open>dotdot\<close> the index in it where a \<^verbatim>\<open>..\<close> must stop. \<open>backtrack\<close> is the inner loop
  that moves the write index back to the last separator.\<close>

fun backtrack :: "string \<Rightarrow> nat \<Rightarrow> nat \<Rightarrow> nat" where
  "backtrack out dotdot w =
     (if w > dotdot \<and> out ! w \<noteq> CHR ''/'' then backtrack out dotdot (w - 1) else w)"

declare backtrack.simps [simp del]

function clean_loop :: "bool \<Rightarrow> string \<Rightarrow> string \<Rightarrow> nat \<Rightarrow> string" where
  "clean_loop rooted [] out dotdot = out"
| "clean_loop rooted (c # rest) out dotdot =
     (if c = CHR ''/'' then clean_loop rooted rest out dotdot
      else if c = CHR ''.'' \<and> (rest = [] \<or> hd rest = CHR ''/'') then
        clean_loop rooted rest out dotdot
      else if c = CHR ''.'' \<and> rest \<noteq> [] \<and> hd rest = CHR ''.''
              \<and> (tl rest = [] \<or> hd (tl rest) = CHR ''/'') then
        (if length out > dotdot then
           clean_loop rooted (tl rest)
             (take (backtrack out dotdot (length out - 1)) out) dotdot
         else if \<not> rooted then
           (let out' = (if length out > 0 then out @ ''/'' else out) @ ''..''
            in clean_loop rooted (tl rest) out' (length out'))
         else clean_loop rooted (tl rest) out dotdot)
      else
        (let out' = (if rooted \<and> length out \<noteq> 1 \<or> \<not> rooted \<and> length out \<noteq> 0
                     then out @ ''/'' else out)
         in clean_loop rooted (dropWhile (\<lambda>x. x \<noteq> CHR ''/'') (c # rest))
              (out' @ takeWhile (\<lambda>x. x \<noteq> CHR ''/'') (c # rest)) dotdot))"
  by pat_completeness auto
termination
  apply (relation "measure (\<lambda>(rooted, path, out, dotdot). length path)")
  apply simp
  apply simp
  apply simp
  apply simp
  apply simp
  apply simp
  subgoal for rooted c rest out dotdot x
    using length_dropWhile_le [of "\<lambda>x. x \<noteq> CHR ''/''" rest] by simp
  done

definition filepath_Clean :: "string \<Rightarrow> string" where
  "filepath_Clean path =
     (if path = [] then ''.''
      else
        (let rooted = (hd path = CHR ''/'');
             out = (if rooted then clean_loop True (tl path) ''/'' 1
                    else clean_loop False path [] 0)
         in if out = [] then ''.'' else out))"

text \<open>\<^verbatim>\<open>filepath.Join\<close>: the elements from the first non-empty one on, joined with the
  separator and cleaned; the empty string when every element is empty.\<close>

definition filepath_Join :: "string list \<Rightarrow> string" where
  "filepath_Join elem =
     (case dropWhile (\<lambda>e. e = []) elem of
        [] \<Rightarrow> []
      | es \<Rightarrow> filepath_Clean (strings_Join es ''/''))"

definition filepath_IsAbs :: "string \<Rightarrow> bool" where
  "filepath_IsAbs path = (path \<noteq> [] \<and> hd path = CHR ''/'')"

definition filepath_Abs :: "world \<Rightarrow> string \<Rightarrow> (string + string) proc" where
  "filepath_Abs w path =
     (if filepath_IsAbs path then ret (Inr (filepath_Clean path))
      else bindp (os_Getwd w) (\<lambda>r.
        case r of
          Inl e \<Rightarrow> ret (Inl e)
        | Inr wd \<Rightarrow> ret (Inr (filepath_Join [wd, path]))))"

text \<open>\<^verbatim>\<open>filepath.Base\<close>: the trailing separators are stripped, then the last element is
  taken; the empty path gives \<^verbatim>\<open>.\<close>, a path of separators only gives one separator.\<close>

definition filepath_Base :: "string \<Rightarrow> string" where
  "filepath_Base path =
     (if path = [] then ''.''
      else
        (let stripped = rev (dropWhile (\<lambda>x. x = CHR ''/'') (rev path));
             last_elem = rev (takeWhile (\<lambda>x. x \<noteq> CHR ''/'') (rev stripped))
         in if last_elem = [] then ''/'' else last_elem))"

section \<open>The library functions of os/exec\<close>

definition exec_LookPath :: "world \<Rightarrow> string \<Rightarrow> (string \<times> error) proc" where
  "exec_LookPath w file t = (t @ [Sys (LookPath file)], Inr (lookPath w t file))"

text \<open>\<^verbatim>\<open>exec.Command(name, arg...)\<close>: \<^verbatim>\<open>Args\<close> starts with the name. When the name is its own
  base name (it has no separator, or it is \<^verbatim>\<open>/\<close>), the executable is looked up: a path that
  is found replaces the name, and an error of the lookup is stored in the command.\<close>

definition exec_Command :: "world \<Rightarrow> string \<Rightarrow> string list \<Rightarrow> Cmd proc" where
  "exec_Command w name arg =
     (let cmd = \<lparr>Path = name, Args = name # arg, Stdin = None, Stdout = None, Stderr = None,
                 Cloneflags = 0, Err = None\<rparr>
      in if filepath_Base name = name then
           bindp (exec_LookPath w name) (\<lambda>r.
             ret (cmd\<lparr>Path := (if fst r \<noteq> [] then fst r else name), Err := snd r\<rparr>))
         else ret cmd)"

text \<open>\<^verbatim>\<open>cmd.Run()\<close> is \<^verbatim>\<open>Start\<close> then \<^verbatim>\<open>Wait\<close>. \<^verbatim>\<open>Start\<close> returns at once, before any
  process is created, when the command has no path or carries a stored error.\<close>

definition cmd_Run :: "world \<Rightarrow> Cmd \<Rightarrow> error proc" where
  "cmd_Run w cmd t =
     (if Path cmd = [] \<and> Err cmd = None then (t, Inr (Some ''exec: no command''))
      else
        (case Err cmd of
           Some e \<Rightarrow> (t, Inr (Some e))
         | None \<Rightarrow>
             (t @ [Sys (Run cmd)],
              Inr (case wait w t cmd of
                     RunOk \<Rightarrow> None
                   | ExitError code msg \<Rightarrow> Some msg
                   | RunFailed msg \<Rightarrow> Some msg))))"

section \<open>shp.go\<close>

definition oldRootDir :: string where
  "oldRootDir = ''.old_root''"

definition procFS :: string where
  "procFS = ''proc''"

definition CLONE_NEWNS :: "64 word" where "CLONE_NEWNS = 0x00020000"
definition CLONE_NEWUTS :: "64 word" where "CLONE_NEWUTS = 0x04000000"
definition CLONE_NEWPID :: "64 word" where "CLONE_NEWPID = 0x20000000"
definition MNT_DETACH :: int where "MNT_DETACH = 2"

definition usage_run :: string where
  "usage_run = ''usage: shp run <rootfs_path> <cmd> [options]''"

definition usage_child :: string where
  "usage_child = ''usage: shp child <rootfs_path> <cmd> [options]''"

definition handle :: "error \<Rightarrow> unit proc" where
  "handle err =
     (case err of
        None \<Rightarrow> ret ()
      | Some e \<Rightarrow> bindp (Print ([CHR 0x0A] @ e @ [CHR 0x0A])) (\<lambda>_. os_Exit 1))"

definition mountProc :: "world \<Rightarrow> error proc" where
  "mountProc w = syscall w (Mount procFS procFS procFS 0 [])"

definition getCmdPath :: "string \<Rightarrow> string proc" where
  "getCmdPath cmdPath =
     (let splits = strings_Split cmdPath (CHR ''/'') in
      if length splits > 1 then
        bindp (Print (''WARNING! Absolute path resolution for ['' @ cmdPath
                      @ ''] will be done based on the new rootfs (inside container).''
                      @ [CHR 0x0A]))
          (\<lambda>_. ret cmdPath)
      else
        bindp (Print (''INFO: Resolving command ['' @ cmdPath
                      @ ''] inside /bin of the new rootfs.'' @ [CHR 0x0A]))
          (\<lambda>_. ret (filepath_Join [''/bin/'', cmdPath])))"

definition validateRootfs :: "world \<Rightarrow> string \<Rightarrow> error proc" where
  "validateRootfs w rootfs =
     bindp (syscall w (Stat rootfs)) (\<lambda>err.
       case err of
         Some e \<Rightarrow> ret (Some (''rootfs path does not exist: '' @ rootfs @ '': '' @ e))
       | None \<Rightarrow> ret None)"

definition ChrootIsolator_Isolate :: "world \<Rightarrow> string \<Rightarrow> error proc" where
  "ChrootIsolator_Isolate w rootfs =
     bindp (syscall w (Chroot rootfs)) (\<lambda>err.
       case err of
         Some e \<Rightarrow> ret (Some (''chroot failed: '' @ e))
       | None \<Rightarrow>
           bindp (syscall w (Chdir ''/'')) (\<lambda>err.
             case err of
               Some e \<Rightarrow> ret (Some (''chdir to / failed after chroot: '' @ e))
             | None \<Rightarrow>
                 bindp (Println ''Using chroot for filesystem isolation'') (\<lambda>_. ret None)))"

text \<open>The two cleanup steps of the pivot_root strategy, after the root swap and the change
  of directory: each failure is printed, neither is returned. The mode 0700 of the
  holding directory is 448.\<close>

definition pivot_cleanup :: "world \<Rightarrow> error proc" where
  "pivot_cleanup w =
     bindp (syscall w (Unmount (''/'' @ oldRootDir) MNT_DETACH)) (\<lambda>err.
     bindp (case err of
              Some e \<Rightarrow> Print (''Warning: unmounting old root failed: '' @ e @ [CHR 0x0A])
            | None \<Rightarrow> ret ()) (\<lambda>_.
     bindp (syscall w (Remove (''/'' @ oldRootDir))) (\<lambda>err.
     bindp (case err of
              Some e \<Rightarrow> Print (''Warning: removing old root directory failed: '' @ e
                               @ [CHR 0x0A])
            | None \<Rightarrow> ret ()) (\<lambda>_.
     bindp (Println ''Successfully using pivot_root'') (\<lambda>_. ret None)))))"

definition PivotRootIsolator_Isolate :: "world \<Rightarrow> string \<Rightarrow> error proc" where
  "PivotRootIsolator_Isolate w rootfs =
     bindp (filepath_Abs w rootfs) (\<lambda>r.
       case r of
         Inl e \<Rightarrow> ret (Some (''cannot get absolute path for '' @ rootfs @ '': '' @ e))
       | Inr absNewRoot \<Rightarrow>
           (let oldRoot = filepath_Join [absNewRoot, oldRootDir] in
            bindp (syscall w (MkdirAll oldRoot 448)) (\<lambda>err.
              case err of
                Some e \<Rightarrow> ret (Some (''cannot create old_root directory: '' @ e))
              | None \<Rightarrow>
                  bindp (syscall w (PivotRoot absNewRoot oldRoot)) (\<lambda>err.
                    case err of
                      Some e \<Rightarrow> ret (Some (''pivot_root failed: '' @ e))
                    | None \<Rightarrow>
                        bindp (syscall w (Chdir ''/'')) (\<lambda>err.
                          case err of
                            Some e \<Rightarrow>
                              ret (Some (''chdir to / failed after pivot_root: '' @ e))
                          | None \<Rightarrow> pivot_cleanup w)))))"

definition child :: "world \<Rightarrow> string list \<Rightarrow> unit proc" where
  "child w args =
     (if length args < 2 then bindp (Println usage_child) (\<lambda>_. os_Exit 1)
      else
        (let rootfs = args ! 0; cmdArgs = drop 1 args in
         bindp (bindp (validateRootfs w rootfs) handle) (\<lambda>_.
         bindp (getCmdPath (cmdArgs ! 0)) (\<lambda>binPath.
         bindp (exec_Command w binPath (drop 1 cmdArgs)) (\<lambda>cmd0.
           (let cmd = cmd0\<lparr>Stdin := Some os_Stdin, Stderr := Some os_Stderr,
                            Stdout := Some os_Stdout\<rparr> in
            bindp (PivotRootIsolator_Isolate w rootfs) (\<lambda>err.
            bindp (case err of
                     Some e \<Rightarrow>
                       bindp (Print (''pivot_root failed: '' @ e @ [CHR 0x0A]
                                     @ ''Falling back to chroot...'' @ [CHR 0x0A])) (\<lambda>_.
                         bindp (ChrootIsolator_Isolate w rootfs) handle)
                   | None \<Rightarrow> ret ()) (\<lambda>_.
            bindp (bindp (mountProc w) handle) (\<lambda>_.
            bindp (cmd_Run w cmd) handle)))))))))"

definition run :: "world \<Rightarrow> string list \<Rightarrow> unit proc" where
  "run w args =
     (if length args < 2 then bindp (Println usage_run) (\<lambda>_. os_Exit 1)
      else
        (let fargs = [''child''] @ args in
         bindp (exec_Command w ''/proc/self/exe'' fargs) (\<lambda>cmd0.
           (let cmd = cmd0\<lparr>Stdin := Some os_Stdin, Stderr := Some os_Stderr,
                            Stdout := Some os_Stdout,
                            Cloneflags := CLONE_NEWUTS OR CLONE_NEWPID OR CLONE_NEWNS\<rparr>
            in bindp (cmd_Run w cmd) handle))))"

definition main :: "world \<Rightarrow> string list \<Rightarrow> unit proc" where
  "main w argv =
     (if length argv < 2 then Println usage_run
      else if argv ! 1 = ''run'' then run w (drop 2 argv)
      else if argv ! 1 = ''child'' then child w (drop 2 argv)
      else Println usage_run)"

text \<open>The process: \<^verbatim>\<open>main\<close> started with no event behind it; returning from \<^verbatim>\<open>main\<close> is
  exit code 0.\<close>

definition program :: "world \<Rightarrow> string list \<Rightarrow> event list \<times> int" where
  "program w argv =
     (case main w argv [] of
        (t, Inl c) \<Rightarrow> (t, c)
      | (t, Inr _) \<Rightarrow> (t, 0))"

section \<open>Notions used in the statements\<close>

fun is_Mount :: "event \<Rightarrow> bool" where
  "is_Mount (Sys (Mount s tg f fl d)) = True"
| "is_Mount ev = False"

fun is_Run :: "event \<Rightarrow> bool" where
  "is_Run (Sys (Run c)) = True"
| "is_Run ev = False"

text \<open>A step only appends events to the trace, and every event it appends satisfies \<open>P\<close>.\<close>

definition emits :: "(event \<Rightarrow> bool) \<Rightarrow> 'a proc \<Rightarrow> bool" where
  "emits P m = (\<forall>t. \<exists>evs. fst (m t) = t @ evs \<and> list_all P evs)"

text \<open>A step appends at least one event, and \<open>e\<close> is the first it appends.\<close>

definition starts_with :: "event \<Rightarrow> 'a proc \<Rightarrow> bool" where
  "starts_with e m = (\<forall>t. \<exists>rest. fst (m t) = t @ e # rest)"

text \<open>The directories that exist after the events \<open>evs\<close>, performed after the history \<open>h\<close>,
  when \<open>D\<close> existed before: a successful \<^verbatim>\<open>os.MkdirAll\<close> creates its path, a successful
  \<^verbatim>\<open>os.Remove\<close> deletes its path, and no other call of shp.go creates or deletes a
  directory.\<close>

fun dirs_after :: "world \<Rightarrow> event list \<Rightarrow> event list \<Rightarrow> string set \<Rightarrow> string set" where
  "dirs_after w h [] D = D"
| "dirs_after w h (ev # evs) D =
     dirs_after w (h @ [ev]) evs
       (case ev of
          Sys (MkdirAll p m) \<Rightarrow> if sys w h (MkdirAll p m) = None then insert p D else D
        | Sys (Remove p) \<Rightarrow> if sys w h (Remove p) = None then D - {p} else D
        | _ \<Rightarrow> D)"

text \<open>The steps of \<^verbatim>\<open>child\<close> from the isolation on (lines 126 to 134), for the command
  \<open>cmd\<close> that it has built before.\<close>

definition isolate_and_launch :: "world \<Rightarrow> string \<Rightarrow> Cmd \<Rightarrow> unit proc" where
  "isolate_and_launch w rootfs cmd =
     bindp (PivotRootIsolator_Isolate w rootfs) (\<lambda>err.
     bindp (case err of
              Some e \<Rightarrow>
                bindp (Print (''pivot_root failed: '' @ e @ [CHR 0x0A]
                              @ ''Falling back to chroot...'' @ [CHR 0x0A])) (\<lambda>_.
                  bindp (ChrootIsolator_Isolate w rootfs) handle)
            | None \<Rightarrow> ret ()) (\<lambda>_.
     bindp (bindp (mountProc w) handle) (\<lambda>_.
     bindp (cmd_Run w cmd) handle)))"

text \<open>Worlds for concrete runs: the answers do not depend on the history, the working
  directory is \<^verbatim>\<open>/root\<close>, and a lookup (shp.go makes one only for the path \<^verbatim>\<open>/\<close>) finds a
  directory.\<close>

definition world_of :: "(call \<Rightarrow> error) \<Rightarrow> run_result \<Rightarrow> world" where
  "world_of f r =
     \<lparr>sys = (\<lambda>t. f), cwd = (\<lambda>t. Inr ''/root''),
      lookPath = (\<lambda>t file. ([], Some (''exec: '' @ [CHR 0x22] @ file @ [CHR 0x22]
                                       @ '': is a directory''))),
      wait = (\<lambda>t c. r)\<rparr>"

definition w_all_ok :: world where
  "w_all_ok = world_of (\<lambda>c. None) RunOk"

definition w_same_fs :: world where
  "w_same_fs =
     world_of (\<lambda>c. case c of PivotRoot a b \<Rightarrow> Some ''invalid argument'' | _ \<Rightarrow> None) RunOk"

definition w_no_isolation :: world where
  "w_no_isolation =
     world_of (\<lambda>c. case c of
                 PivotRoot a b \<Rightarrow> Some ''invalid argument''
               | Chroot a \<Rightarrow> Some ''operation not permitted''
               | _ \<Rightarrow> None) RunOk"

definition w_no_root :: world where
  "w_no_root =
     world_of (\<lambda>c. case c of
                 Stat a \<Rightarrow> Some (''stat '' @ a @ '': no such file or directory'')
               | _ \<Rightarrow> None)
       (ExitError 1 ''exit status 1'')"

definition w_cleanup_fails :: world where
  "w_cleanup_fails =
     world_of (\<lambda>c. case c of
                 Unmount a fl \<Rightarrow> Some ''device or resource busy''
               | Remove a \<Rightarrow> Some (''remove '' @ a @ '': directory not empty'')
               | _ \<Rightarrow> None) RunOk"

definition w_exit_2 :: world where
  "w_exit_2 = world_of (\<lambda>c. None) (ExitError 2 ''exit status 2'')"

section \<open>Sequencing\<close>

lemma bindp_ret [simp]: "bindp (ret v) f t = f v t"
  by (simp add: bindp_def ret_def)

lemma bindp_Print [simp]: "bindp (Print s) f t = f () (t @ [Out s])"
  by (simp add: bindp_def Print_def)

lemma bindp_Println [simp]: "bindp (Println s) f t = f () (t @ [Out (s @ [CHR 0x0A])])"
  by (simp add: Println_def)

lemma bindp_os_Exit [simp]: "bindp (os_Exit c) f t = (t, Inl c)"
  by (simp add: bindp_def os_Exit_def)

lemma bindp_syscall [simp]: "bindp (syscall w c) f t = f (sys w t c) (t @ [Sys c])"
  by (simp add: bindp_def syscall_def)

lemma bindp_os_Getwd [simp]: "bindp (os_Getwd w) f t = f (cwd w t) (t @ [Sys Getwd])"
  by (simp add: bindp_def os_Getwd_def)

lemma bindp_exec_LookPath [simp]:
  "bindp (exec_LookPath w file) f t = f (lookPath w t file) (t @ [Sys (LookPath file)])"
  by (simp add: bindp_def exec_LookPath_def)

lemma bindp_cmd_Run [simp]:
  "bindp (cmd_Run w cmd) f t =
     (if Path cmd = [] \<and> Err cmd = None then f (Some ''exec: no command'') t
      else
        (case Err cmd of
           Some e \<Rightarrow> f (Some e) t
         | None \<Rightarrow>
             f (case wait w t cmd of
                  RunOk \<Rightarrow> None
                | ExitError code msg \<Rightarrow> Some msg
                | RunFailed msg \<Rightarrow> Some msg) (t @ [Sys (Run cmd)])))"
  by (simp add: bindp_def cmd_Run_def split: option.splits)

lemma bindp_assoc [simp]: "bindp (bindp m f) g = bindp m (\<lambda>x. bindp (f x) g)"
  by (rule ext) (simp add: bindp_def split: prod.splits sum.splits)

lemma bindp_Inr: "m t = (t', Inr v) \<Longrightarrow> bindp m f t = f v t'"
  by (simp add: bindp_def)


lemma handle_None [simp]: "handle None t = (t, Inr ())"
  by (simp add: handle_def ret_def)

lemma handle_Some [simp]:
  "handle (Some e) t = (t @ [Out ([CHR 0x0A] @ e @ [CHR 0x0A])], Inl 1)"
  by (simp add: handle_def os_Exit_def)

lemma bindp_handle_None [simp]: "bindp (handle None) f t = f () t"
  by (simp add: bindp_def)

lemma bindp_handle_Some [simp]:
  "bindp (handle (Some e)) f t = (t @ [Out ([CHR 0x0A] @ e @ [CHR 0x0A])], Inl 1)"
  by (simp add: bindp_def)

section \<open>Which events a step can append\<close>

lemma emits_ret: "emits P (ret v)"
  by (simp add: emits_def ret_def)

lemma emits_os_Exit: "emits P (os_Exit c)"
  by (simp add: emits_def os_Exit_def)

lemma emits_Print: "P (Out s) \<Longrightarrow> emits P (Print s)"
  by (simp add: emits_def Print_def)

lemma emits_Println: "P (Out (s @ [CHR 0x0A])) \<Longrightarrow> emits P (Println s)"
  by (simp add: Println_def emits_Print)

lemma emits_syscall: "P (Sys c) \<Longrightarrow> emits P (syscall w c)"
  by (simp add: emits_def syscall_def)

lemma emits_os_Getwd: "P (Sys Getwd) \<Longrightarrow> emits P (os_Getwd w)"
  by (simp add: emits_def os_Getwd_def)

lemma emits_exec_LookPath: "P (Sys (LookPath file)) \<Longrightarrow> emits P (exec_LookPath w file)"
  by (simp add: emits_def exec_LookPath_def)

lemma emits_cmd_Run: "P (Sys (Run cmd)) \<Longrightarrow> emits P (cmd_Run w cmd)"
  by (simp add: emits_def cmd_Run_def split: option.splits)

lemma emits_bindp:
  assumes m: "emits P m" and f: "\<And>v. emits P (f v)"
  shows "emits P (bindp m f)"
  unfolding emits_def
proof
  fix t
  obtain t' r where mt: "m t = (t', r)"
    by (cases "m t")
  obtain evs where e: "t' = t @ evs" "list_all P evs"
    using m mt unfolding emits_def by (metis fst_conv)
  show "\<exists>evs. fst (bindp m f t) = t @ evs \<and> list_all P evs"
  proof (cases r)
    case (Inl c)
    then show ?thesis using mt e by (simp add: bindp_def)
  next
    case (Inr v)
    obtain evs' where e': "fst (f v t') = t' @ evs'" "list_all P evs'"
      using f [of v] unfolding emits_def by blast
    then show ?thesis using Inr mt e by (simp add: bindp_def)
  qed
qed

lemma emits_case_option:
  "emits P a \<Longrightarrow> (\<And>e. emits P (b e)) \<Longrightarrow> emits P (case x of None \<Rightarrow> a | Some e \<Rightarrow> b e)"
  by (cases x) simp_all

lemma emits_case_sum:
  "(\<And>e. emits P (a e)) \<Longrightarrow> (\<And>v. emits P (b v))
   \<Longrightarrow> emits P (case x of Inl e \<Rightarrow> a e | Inr v \<Rightarrow> b v)"
  by (cases x) simp_all

lemma emits_if: "emits P a \<Longrightarrow> emits P b \<Longrightarrow> emits P (if c then a else b)"
  by simp

lemmas emits_intros = emits_bindp emits_case_option emits_case_sum emits_if emits_ret
  emits_os_Exit emits_Print emits_Println emits_syscall emits_os_Getwd emits_exec_LookPath
  emits_cmd_Run

lemma emits_exec_Command:
  assumes "P (Sys (LookPath name))"
  shows "emits P (exec_Command w name arg)"
  unfolding exec_Command_def Let_def
  by (intro emits_intros assms)

lemma emits_PivotRootIsolator:
  assumes "\<And>s. P (Out s)"
    and "\<And>c. \<not> is_Mount (Sys c) \<Longrightarrow> \<not> is_Run (Sys c) \<Longrightarrow> P (Sys c)"
  shows "emits P (PivotRootIsolator_Isolate w p)"
  unfolding PivotRootIsolator_Isolate_def pivot_cleanup_def filepath_Abs_def Let_def
  by (intro emits_intros assms) simp_all

lemma emits_ChrootIsolator:
  assumes "\<And>s. P (Out s)"
    and "\<And>c. \<not> is_Mount (Sys c) \<Longrightarrow> \<not> is_Run (Sys c) \<Longrightarrow> P (Sys c)"
  shows "emits P (ChrootIsolator_Isolate w p)"
  unfolding ChrootIsolator_Isolate_def
  by (intro emits_intros assms) simp_all

lemma emits_child:
  assumes "\<And>s. P (Out s)"
    and "\<And>c. \<not> is_Mount (Sys c) \<Longrightarrow> \<not> is_Run (Sys c) \<Longrightarrow> P (Sys c)"
    and "P (Sys (Mount procFS procFS procFS 0 []))"
    and "\<And>c. P (Sys (Run c))"
  shows "emits P (child w args)"
  unfolding child_def validateRootfs_def getCmdPath_def mountProc_def handle_def Let_def
  by (intro emits_intros emits_exec_Command emits_PivotRootIsolator emits_ChrootIsolator assms)
     simp_all

lemma emits_True_extends:
  assumes "emits (\<lambda>ev. True) m"
  shows "\<exists>evs. fst (m t) = t @ evs"
  using assms unfolding emits_def by blast

lemma emits_handle: "emits (\<lambda>ev. True) (handle err)"
  unfolding handle_def by (intro emits_intros) simp_all

lemma emits_launch:
  "emits (\<lambda>ev. True)
     (bindp (mountProc w) (\<lambda>err. bindp (handle err) (\<lambda>_. bindp (cmd_Run w cmd) handle)))"
  unfolding mountProc_def by (intro emits_intros emits_handle) simp_all

lemma emits_True_PivotRootIsolator: "emits (\<lambda>ev. True) (PivotRootIsolator_Isolate w p)"
  by (rule emits_PivotRootIsolator) simp_all

lemma emits_True_ChrootIsolator: "emits (\<lambda>ev. True) (ChrootIsolator_Isolate w p)"
  by (rule emits_ChrootIsolator) simp_all

lemma emits_True_pivot_cleanup: "emits (\<lambda>ev. True) (pivot_cleanup w)"
  unfolding pivot_cleanup_def by (intro emits_intros) simp_all

text \<open>The definitions to unfold when a run is evaluated on a concrete world.\<close>

lemmas shp_defs = child_def run_def main_def program_def validateRootfs_def getCmdPath_def
  mountProc_def PivotRootIsolator_Isolate_def ChrootIsolator_Isolate_def pivot_cleanup_def
  filepath_Abs_def filepath_IsAbs_def filepath_Join_def filepath_Clean_def filepath_Base_def
  exec_Command_def oldRootDir_def procFS_def usage_run_def usage_child_def MNT_DETACH_def
  CLONE_NEWNS_def CLONE_NEWUTS_def CLONE_NEWPID_def world_of_def Let_def
  ret_def Print_def Println_def syscall_def os_Exit_def os_Getwd_def cmd_Run_def
  exec_LookPath_def

section \<open>The first event of a step\<close>

lemma starts_with_syscall: "starts_with (Sys c) (syscall w c)"
  by (simp add: starts_with_def syscall_def)

lemma starts_with_os_Getwd: "starts_with (Sys Getwd) (os_Getwd w)"
  by (simp add: starts_with_def os_Getwd_def)

lemma starts_with_bindp:
  assumes m: "starts_with e m" and f: "\<And>v. emits (\<lambda>ev. True) (f v)"
  shows "starts_with e (bindp m f)"
  unfolding starts_with_def
proof
  fix t
  obtain t' r where mt: "m t = (t', r)"
    by (cases "m t")
  obtain rest where e: "t' = t @ e # rest"
    using m mt unfolding starts_with_def by (metis fst_conv)
  show "\<exists>rest. fst (bindp m f t) = t @ e # rest"
  proof (cases r)
    case (Inl c)
    then show ?thesis using mt e by (simp add: bindp_def)
  next
    case (Inr v)
    obtain evs' where "fst (f v t') = t' @ evs'"
      using f [of v] unfolding emits_def by blast
    then show ?thesis using Inr mt e by (simp add: bindp_def)
  qed
qed

lemma starts_with_bindp_ret: "starts_with e (f v) \<Longrightarrow> starts_with e (bindp (ret v) f)"
  by (simp add: starts_with_def)

lemma starts_with_PivotRootIsolator:
  "starts_with (if filepath_IsAbs r
                then Sys (MkdirAll (filepath_Join [filepath_Clean r, oldRootDir]) 448)
                else Sys Getwd)
     (PivotRootIsolator_Isolate w r)"
proof (cases "filepath_IsAbs r")
  case True
  then show ?thesis
    unfolding PivotRootIsolator_Isolate_def filepath_Abs_def Let_def
    by (simp del: bindp_assoc)
       (intro starts_with_bindp_ret, simp,
        intro starts_with_bindp starts_with_syscall emits_intros emits_True_pivot_cleanup,
        simp_all)
next
  case False
  then show ?thesis
    unfolding PivotRootIsolator_Isolate_def filepath_Abs_def Let_def
    by (simp del: bindp_assoc)
       (intro starts_with_bindp starts_with_os_Getwd emits_intros emits_True_pivot_cleanup,
        simp_all)
qed

lemma chroot_first:
  assumes "\<And>v. emits (\<lambda>ev. True) (k v)"
  shows "\<exists>rest. fst (bindp (ChrootIsolator_Isolate w r) k t) = t @ Sys (Chroot r) # rest"
proof -
  let ?m = "\<lambda>err. bindp (case err of
         Some e \<Rightarrow> ret (Some (''chroot failed: '' @ e))
       | None \<Rightarrow>
           bindp (syscall w (Chdir ''/'')) (\<lambda>err.
             case err of
               Some e \<Rightarrow> ret (Some (''chdir to / failed after chroot: '' @ e))
             | None \<Rightarrow>
                 bindp (Println ''Using chroot for filesystem isolation'') (\<lambda>_. ret None))) k"
  have "emits (\<lambda>ev. True) (?m err)" for err
    by (intro emits_intros assms) simp_all
  then obtain evs where
    "fst (?m (sys w t (Chroot r)) (t @ [Sys (Chroot r)])) = (t @ [Sys (Chroot r)]) @ evs"
    using emits_True_extends by blast
  then show ?thesis
    by (simp add: ChrootIsolator_Isolate_def)
qed

section \<open>The resolution of the command path\<close>

lemma strings_Split_not_Nil: "strings_Split s c \<noteq> []"
  by (induction s) (simp_all add: Let_def)

lemma length_strings_Split: "length (strings_Split s c) = Suc (length (filter (\<lambda>x. x = c) s))"
proof (induction s)
  case Nil
  then show ?case by simp
next
  case (Cons x xs)
  have "length (tl (strings_Split xs c)) = length (filter (\<lambda>x. x = c) xs)"
    using Cons by simp
  then show ?case
    using Cons strings_Split_not_Nil [of xs c] by (simp add: Let_def)
qed

lemma strings_Split_many: "1 < length (strings_Split s c) \<longleftrightarrow> c \<in> set s"
  by (simp add: length_strings_Split filter_empty_conv)

lemma clean_loop_element:
  assumes "CHR ''/'' \<notin> set c" and "c \<noteq> []" and "c \<noteq> ''.''" and "c \<noteq> ''..''"
    and "length out \<noteq> 1"
  shows "clean_loop True c out d = out @ ''/'' @ c"
proof (cases c)
  case Nil
  with assms show ?thesis by simp
next
  case (Cons x rest)
  have tw: "takeWhile (\<lambda>x. x \<noteq> CHR ''/'') rest = rest"
    and dw: "dropWhile (\<lambda>x. x \<noteq> CHR ''/'') rest = []"
    using assms(1) Cons by (auto simp: takeWhile_eq_all_conv dropWhile_eq_Nil_conv)
  have x: "x \<noteq> CHR ''/''"
    using assms(1) Cons by auto
  have h: "rest \<noteq> [] \<Longrightarrow> hd rest \<noteq> CHR ''/''"
    using assms(1) Cons by (cases rest) auto
  have h2: "rest \<noteq> [] \<Longrightarrow> tl rest \<noteq> [] \<Longrightarrow> hd (tl rest) \<noteq> CHR ''/''"
    using assms(1) Cons by (cases rest; cases "tl rest") auto
  have d1: "\<not> (x = CHR ''.'' \<and> (rest = [] \<or> hd rest = CHR ''/''))"
    using assms(3) Cons h by auto
  have d2: "\<not> (x = CHR ''.'' \<and> rest \<noteq> [] \<and> hd rest = CHR ''.''
               \<and> (tl rest = [] \<or> hd (tl rest) = CHR ''/''))"
    using assms(4) Cons h2 by (cases rest) auto
  have "clean_loop True (x # rest) out d
        = clean_loop True (dropWhile (\<lambda>x. x \<noteq> CHR ''/'') (x # rest))
            ((if True \<and> length out \<noteq> 1 \<or> \<not> True \<and> length out \<noteq> 0
              then out @ ''/'' else out) @ takeWhile (\<lambda>x. x \<noteq> CHR ''/'') (x # rest)) d"
    by (subst clean_loop.simps(2)) (simp only: x d1 d2 if_False Let_def)
  also have "\<dots> = out @ ''/'' @ x # rest"
    using x assms(5) by (simp add: tw dw)
  finally show ?thesis
    unfolding Cons .
qed

lemma filepath_Join_bin:
  assumes "CHR ''/'' \<notin> set c" and "c \<noteq> []" and "c \<noteq> ''.''" and "c \<noteq> ''..''"
  shows "filepath_Join [''/bin/'', c] = ''/bin/'' @ c"
proof -
  have "clean_loop True (''bin//'' @ c) ''/'' 1 = clean_loop True c ''/bin'' 1"
    by (simp add: Let_def)
  also have "\<dots> = ''/bin'' @ ''/'' @ c"
    using assms by (intro clean_loop_element) simp_all
  finally show ?thesis
    by (simp add: filepath_Join_def filepath_Clean_def)
qed

lemma filepath_Join_bin_special:
  "filepath_Join [''/bin/'', []] = ''/bin''"
  "filepath_Join [''/bin/'', ''.''] = ''/bin''"
  "filepath_Join [''/bin/'', ''..''] = ''/''"
  by code_simp+

text \<open>A base name is the single separator or has no separator; so a path with a separator
  is its own base name only when it is \<^verbatim>\<open>/\<close>.\<close>

lemma filepath_Base_sep:
  assumes "CHR ''/'' \<in> set (filepath_Base p)"
  shows "filepath_Base p = ''/''"
proof (rule ccontr)
  assume n: "filepath_Base p \<noteq> ''/''"
  let ?s = "rev (dropWhile (\<lambda>x. x = CHR ''/'') (rev p))"
  from n assms have "CHR ''/'' \<in> set (takeWhile (\<lambda>x. x \<noteq> CHR ''/'') (rev ?s))"
    by (auto simp: filepath_Base_def Let_def split: if_splits)
  then show False
    by (auto dest: set_takeWhileD)
qed

lemma filepath_Base_self:
  assumes "CHR ''/'' \<in> set p"
  shows "filepath_Base p = p \<longleftrightarrow> p = ''/''"
proof
  assume "filepath_Base p = p"
  with assms filepath_Base_sep [of p] show "p = ''/''"
    by simp
next
  assume "p = ''/''"
  then show "filepath_Base p = p"
    by (simp add: filepath_Base_def)
qed

lemma getCmdPath_shape: "\<exists>m b. getCmdPath c t = (t @ [Out m], Inr b) \<and> CHR ''/'' \<in> set b"
proof (cases "CHR ''/'' \<in> set c")
  case True
  then show ?thesis
    using strings_Split_many [of c "CHR ''/''"] by (simp add: getCmdPath_def Let_def ret_def)
next
  case False
  have "CHR ''/'' \<in> set (filepath_Join [''/bin/'', c])"
  proof (cases "c = [] \<or> c = ''.'' \<or> c = ''..''")
    case True
    then show ?thesis
      by (auto simp: filepath_Join_bin_special)
  next
    case f: False
    then show ?thesis
      using False by (simp add: filepath_Join_bin)
  qed
  then show ?thesis
    using False strings_Split_many [of c "CHR ''/''"]
    by (simp add: getCmdPath_def Let_def ret_def)
qed

lemma getCmdPath_result: "snd (getCmdPath c t) = snd (getCmdPath c [])"
  by (simp add: getCmdPath_def Let_def ret_def)

section \<open>The Init role up to the isolation step\<close>

lemma exec_Command_shape:
  "\<exists>cmd. exec_Command w name arg t
          = (t @ (if filepath_Base name = name then [Sys (LookPath name)] else []), Inr cmd)
        \<and> Args cmd = name # arg \<and> Stdin cmd = None \<and> Stdout cmd = None \<and> Stderr cmd = None
        \<and> Cloneflags cmd = 0
        \<and> (filepath_Base name \<noteq> name \<longrightarrow> Path cmd = name \<and> Err cmd = None)
        \<and> (filepath_Base name = name \<longrightarrow>
             Path cmd = (if fst (lookPath w t name) \<noteq> [] then fst (lookPath w t name)
                         else name)
             \<and> Err cmd = snd (lookPath w t name))"
  by (simp add: exec_Command_def Let_def ret_def)

text \<open>After a validation that passed, \<^verbatim>\<open>child\<close> resolves the command path, builds the
  command (looking the executable up only when the resolved path is \<^verbatim>\<open>/\<close>), sets its three
  streams and goes on with the isolation.\<close>

lemma child_at_isolation:
  assumes len: "2 \<le> length args" and valid: "sys w [] (Stat (args ! 0)) = None"
  shows "\<exists>b cmd.
           snd (getCmdPath (args ! 1) []) = Inr b
         \<and> CHR ''/'' \<in> set b
         \<and> fst (bindp (getCmdPath (args ! 1)) (\<lambda>binPath. exec_Command w binPath (drop 2 args))
                 [Sys (Stat (args ! 0))])
           = fst (getCmdPath (args ! 1) [Sys (Stat (args ! 0))])
             @ (if b = ''/'' then [Sys (LookPath ''/'')] else [])
         \<and> Args cmd = b # drop 2 args
         \<and> Stdin cmd = Some os_Stdin \<and> Stdout cmd = Some os_Stdout
         \<and> Stderr cmd = Some os_Stderr \<and> Cloneflags cmd = 0
         \<and> (b \<noteq> ''/'' \<longrightarrow> Path cmd = b \<and> Err cmd = None)
         \<and> (b = ''/'' \<longrightarrow>
              Path cmd
              = (if fst (lookPath w (fst (getCmdPath (args ! 1) [Sys (Stat (args ! 0))])) ''/'')
                    \<noteq> []
                 then fst (lookPath w (fst (getCmdPath (args ! 1) [Sys (Stat (args ! 0))])) ''/'')
                 else ''/'')
              \<and> Err cmd
                = snd (lookPath w (fst (getCmdPath (args ! 1) [Sys (Stat (args ! 0))])) ''/''))
         \<and> child w args []
           = isolate_and_launch w (args ! 0) cmd
               (fst (bindp (getCmdPath (args ! 1))
                      (\<lambda>binPath. exec_Command w binPath (drop 2 args))
                      [Sys (Stat (args ! 0))]))"
proof -
  let ?t0 = "[Sys (Stat (args ! 0))]"
  obtain m b where g: "getCmdPath (args ! 1) ?t0 = (?t0 @ [Out m], Inr b)"
    and sep: "CHR ''/'' \<in> set b"
    using getCmdPath_shape by blast
  have b: "snd (getCmdPath (args ! 1) []) = Inr b"
    using g getCmdPath_result [of "args ! 1" ?t0] by simp
  have base: "filepath_Base b = b \<longleftrightarrow> b = ''/''"
    using sep by (rule filepath_Base_self)
  define G where "G = ?t0 @ [Out m]"
  define t1 where "t1 = G @ (if b = ''/'' then [Sys (LookPath ''/'')] else [])"
  obtain cmd0 where
    x0: "exec_Command w b (drop 2 args) G
         = (G @ (if filepath_Base b = b then [Sys (LookPath b)] else []), Inr cmd0)"
    and c0: "Args cmd0 = b # drop 2 args" "Stdin cmd0 = None" "Stdout cmd0 = None"
      "Stderr cmd0 = None" "Cloneflags cmd0 = 0"
    and q1: "filepath_Base b \<noteq> b \<longrightarrow> Path cmd0 = b \<and> Err cmd0 = None"
    and q2: "filepath_Base b = b \<longrightarrow>
               Path cmd0 = (if fst (lookPath w G b) \<noteq> [] then fst (lookPath w G b) else b)
               \<and> Err cmd0 = snd (lookPath w G b)"
    using exec_Command_shape [of w b "drop 2 args" G] by blast
  have x: "exec_Command w b (drop 2 args) G = (t1, Inr cmd0)"
    using x0 base unfolding t1_def by (cases "b = ''/''") simp_all
  have p1: "b \<noteq> ''/'' \<longrightarrow> Path cmd0 = b \<and> Err cmd0 = None"
    using q1 base by simp
  have p2: "b = ''/'' \<longrightarrow>
              Path cmd0 = (if fst (lookPath w G ''/'') \<noteq> [] then fst (lookPath w G ''/'')
                           else ''/'')
              \<and> Err cmd0 = snd (lookPath w G ''/'')"
    using q2 base by (cases "b = ''/''") simp_all
  have gG: "getCmdPath (args ! 1) ?t0 = (G, Inr b)"
    using g unfolding G_def .
  have g': "bindp (getCmdPath (args ! Suc 0)) f ?t0 = f b G"
    for f :: "string \<Rightarrow> 'a proc"
    using gG by (simp add: bindp_def)
  have x': "bindp (exec_Command w b (drop (Suc (Suc 0)) args)) f G = f cmd0 t1"
    for f :: "Cmd \<Rightarrow> 'a proc"
    using x by (simp add: bindp_def numeral_2_eq_2)
  let ?cmd = "cmd0\<lparr>Stdin := Some os_Stdin, Stderr := Some os_Stderr,
                    Stdout := Some os_Stdout\<rparr>"
  have t: "fst (bindp (getCmdPath (args ! 1)) (\<lambda>binPath. exec_Command w binPath (drop 2 args))
                 ?t0) = t1"
    using x by (simp add: g')
  have fG: "fst (getCmdPath (args ! 1) ?t0) = G"
    using gG by simp
  have "child w args [] = isolate_and_launch w (args ! 0) ?cmd t1"
    using len valid
    by (simp add: child_def validateRootfs_def isolate_and_launch_def Let_def g' x'
        del: bindp_cmd_Run)
  with t fG b sep c0 p1 p2 show ?thesis
    unfolding t1_def by (intro exI [of _ b] exI [of _ ?cmd]) simp
qed

lemma emits_isolate_and_launch:
  assumes "\<And>s. P (Out s)"
    and "\<And>c. \<not> is_Mount (Sys c) \<Longrightarrow> \<not> is_Run (Sys c) \<Longrightarrow> P (Sys c)"
    and "P (Sys (Mount procFS procFS procFS 0 []))"
    and "P (Sys (Run cmd))"
  shows "emits P (isolate_and_launch w r cmd)"
  unfolding isolate_and_launch_def mountProc_def handle_def
  by (intro emits_intros emits_PivotRootIsolator emits_ChrootIsolator assms) simp_all

text \<open>What follows a failure of the pivot_root strategy.\<close>

lemma fallback_trace:
  assumes "PivotRootIsolator_Isolate w r t = (t2, Inr (Some e))"
  shows "\<exists>rest. fst (isolate_and_launch w r cmd t)
                 = t2 @ [Out (''pivot_root failed: '' @ e @ [CHR 0x0A]
                              @ ''Falling back to chroot...'' @ [CHR 0x0A]),
                         Sys (Chroot r)] @ rest"
proof -
  let ?k = "\<lambda>err. bindp (handle err) (\<lambda>_. bindp (mountProc w) (\<lambda>err. bindp (handle err)
              (\<lambda>_. bindp (cmd_Run w cmd) handle)))"
  let ?t3 = "t2 @ [Out (''pivot_root failed: '' @ e @ [CHR 0x0A]
                        @ ''Falling back to chroot...'' @ [CHR 0x0A])]"
  have p': "bindp (PivotRootIsolator_Isolate w r) f t = f (Some e) t2"
    for f :: "error \<Rightarrow> unit proc"
    using assms by (simp add: bindp_def)
  have "isolate_and_launch w r cmd t = bindp (ChrootIsolator_Isolate w r) ?k ?t3"
    by (simp add: isolate_and_launch_def p' del: bindp_cmd_Run)
  moreover have "emits (\<lambda>ev. True) (?k v)" for v
    by (intro emits_intros emits_handle emits_launch)
  ultimately show ?thesis
    using chroot_first [of ?k w r ?t3] by simp
qed

section \<open>The mount of the process-information filesystem\<close>

text \<open>
  C8. Whenever the Init role (\<^verbatim>\<open>child\<close>) mounts a filesystem, in any world and for any
  arguments, the call is \<^verbatim>\<open>Mount("proc", "proc", "proc", 0, "")\<close>: source, target and type
  are the procfs name, the flags are zero and the options are empty.
\<close>

theorem mount_proc_fixed:
  assumes "Sys (Mount src tgt fstype flags data) \<in> set (fst (child w args []))"
  shows "src = ''proc'' \<and> tgt = ''proc'' \<and> fstype = ''proc'' \<and> flags = 0 \<and> data = []"
proof -
  let ?P = "\<lambda>ev. is_Mount ev \<longrightarrow> ev = Sys (Mount procFS procFS procFS 0 [])"
  have "emits ?P (child w args)"
    by (rule emits_child) simp_all
  then obtain evs where "fst (child w args []) = [] @ evs" and "list_all ?P evs"
    unfolding emits_def by blast
  with assms have "?P (Sys (Mount src tgt fstype flags data))"
    by (simp add: list_all_iff)
  then show ?thesis
    by (simp add: procFS_def)
qed

theorem mount_proc_fixed_witness:
  "Sys (Mount procFS procFS procFS 0 []) \<in> set (fst (child w_all_ok [''/tmp/r'', ''ls''] []))
   \<and> procFS = ''proc''"
proof -
  have h: "Sys (Mount procFS procFS procFS 0 [])
           \<in> set (fst (child w_all_ok [''/tmp/r'', ''ls''] []))"
    by (simp add: shp_defs w_all_ok_def)
  from mount_proc_fixed [OF h] h show ?thesis
    by simp
qed

section \<open>The fallback from pivot_root to chroot\<close>

text \<open>
  C1. Let the Init role (\<^verbatim>\<open>child\<close>) have its two arguments and a root path that passes
  validation, and let the pivot_root strategy, called in the state that \<^verbatim>\<open>child\<close> calls it
  in (after the resolution of the command path and \<^verbatim>\<open>exec.Command\<close>), return a failure \<open>e\<close>
  (from whichever of its steps). Then \<^verbatim>\<open>child\<close> goes on by printing the warning
  \<^verbatim>\<open>pivot_root failed: <e>\<close>, \<^verbatim>\<open>Falling back to chroot...\<close> and by calling \<^verbatim>\<open>chroot\<close> on the
  root path: both events are in the trace, directly after the events of the failed
  strategy, so before any exit.
\<close>

theorem fallback_unconditional:
  assumes len: "2 \<le> length args"
    and valid: "sys w [] (Stat (args ! 0)) = None"
    and primary: "PivotRootIsolator_Isolate w (args ! 0)
                    (fst (bindp (getCmdPath (args ! 1))
                           (\<lambda>binPath. exec_Command w binPath (drop 2 args))
                           [Sys (Stat (args ! 0))]))
                  = (t2, Inr (Some e))"
  shows "\<exists>rest. fst (child w args [])
                 = t2 @ [Out (''pivot_root failed: '' @ e @ [CHR 0x0A]
                              @ ''Falling back to chroot...'' @ [CHR 0x0A]),
                         Sys (Chroot (args ! 0))] @ rest"
proof -
  obtain cmd where "child w args []
      = isolate_and_launch w (args ! 0) cmd
          (fst (bindp (getCmdPath (args ! 1)) (\<lambda>binPath. exec_Command w binPath (drop 2 args))
                 [Sys (Stat (args ! 0))]))"
    using child_at_isolation [OF len valid] by blast
  then show ?thesis
    using fallback_trace [OF primary, of cmd] by simp
qed

theorem fallback_unconditional_witness:
  "2 \<le> length [''/tmp/r'', ''ls'']
   \<and> sys w_same_fs [] (Stat ''/tmp/r'') = None
   \<and> PivotRootIsolator_Isolate w_same_fs ''/tmp/r''
         (fst (bindp (getCmdPath ''ls'') (\<lambda>binPath. exec_Command w_same_fs binPath [])
                [Sys (Stat ''/tmp/r'')]))
       = ([Sys (Stat ''/tmp/r''),
           Out (''INFO: Resolving command [ls] inside /bin of the new rootfs.'' @ [CHR 0x0A]),
           Sys (MkdirAll ''/tmp/r/.old_root'' 448),
           Sys (PivotRoot ''/tmp/r'' ''/tmp/r/.old_root'')],
          Inr (Some ''pivot_root failed: invalid argument''))
   \<and> (\<exists>rest. fst (child w_same_fs [''/tmp/r'', ''ls''] [])
         = [Sys (Stat ''/tmp/r''),
            Out (''INFO: Resolving command [ls] inside /bin of the new rootfs.'' @ [CHR 0x0A]),
            Sys (MkdirAll ''/tmp/r/.old_root'' 448),
            Sys (PivotRoot ''/tmp/r'' ''/tmp/r/.old_root''),
            Out (''pivot_root failed: pivot_root failed: invalid argument'' @ [CHR 0x0A]
                 @ ''Falling back to chroot...'' @ [CHR 0x0A]),
            Sys (Chroot ''/tmp/r'')] @ rest)"
proof -
  let ?args = "[''/tmp/r'', ''ls'']"
  let ?t2 = "[Sys (Stat ''/tmp/r''),
           Out (''INFO: Resolving command [ls] inside /bin of the new rootfs.'' @ [CHR 0x0A]),
           Sys (MkdirAll ''/tmp/r/.old_root'' 448),
           Sys (PivotRoot ''/tmp/r'' ''/tmp/r/.old_root'')]"
  have h1: "2 \<le> length ?args"
    by simp
  have h2: "sys w_same_fs [] (Stat (?args ! 0)) = None"
    by (simp add: w_same_fs_def world_of_def)
  have h3: "PivotRootIsolator_Isolate w_same_fs (?args ! 0)
              (fst (bindp (getCmdPath (?args ! 1))
                     (\<lambda>binPath. exec_Command w_same_fs binPath (drop 2 ?args))
                     [Sys (Stat (?args ! 0))]))
            = (?t2, Inr (Some ''pivot_root failed: invalid argument''))"
    by (simp add: shp_defs w_same_fs_def)
  from fallback_unconditional [OF h1 h2 h3] h2 h3 show ?thesis
    by simp
qed

text \<open>
  C2. When the pivot_root strategy has failed and the chroot strategy, called after the
  warning, fails too with \<open>e'\<close>, the process started as \<^verbatim>\<open>shp child ...\<close> prints \<open>e'\<close> and
  exits with code 1, and no event of its whole trace is a mount or the launch of a
  command.
\<close>

theorem both_strategies_fail:
  assumes len: "2 \<le> length args"
    and valid: "sys w [] (Stat (args ! 0)) = None"
    and primary: "PivotRootIsolator_Isolate w (args ! 0)
                    (fst (bindp (getCmdPath (args ! 1))
                           (\<lambda>binPath. exec_Command w binPath (drop 2 args))
                           [Sys (Stat (args ! 0))]))
                  = (t2, Inr (Some e))"
    and legacy: "ChrootIsolator_Isolate w (args ! 0)
                   (t2 @ [Out (''pivot_root failed: '' @ e @ [CHR 0x0A]
                               @ ''Falling back to chroot...'' @ [CHR 0x0A])])
                 = (t3, Inr (Some e'))"
  shows "program w (p # ''child'' # args) = (t3 @ [Out ([CHR 0x0A] @ e' @ [CHR 0x0A])], 1)
         \<and> list_all (\<lambda>ev. \<not> is_Mount ev \<and> \<not> is_Run ev)
              (fst (program w (p # ''child'' # args)))"
proof -
  let ?Q = "\<lambda>ev. \<not> is_Mount ev \<and> \<not> is_Run ev"
  define T0 where
    "T0 = fst (bindp (getCmdPath (args ! 1)) (\<lambda>binPath. exec_Command w binPath (drop 2 args))
                [Sys (Stat (args ! 0))])"
  define warn where
    "warn = Out (''pivot_root failed: '' @ e @ [CHR 0x0A]
                 @ ''Falling back to chroot...'' @ [CHR 0x0A])"
  obtain b cmd where c0: "child w args [] = isolate_and_launch w (args ! 0) cmd T0"
    and T0: "T0 = fst (getCmdPath (args ! 1) [Sys (Stat (args ! 0))])
                  @ (if b = ''/'' then [Sys (LookPath ''/'')] else [])"
    using child_at_isolation [OF len valid] unfolding T0_def by blast
  obtain m b' where "getCmdPath (args ! 1) [Sys (Stat (args ! 0))]
                     = ([Sys (Stat (args ! 0))] @ [Out m], Inr b')"
    using getCmdPath_shape by blast
  with T0 have q0: "list_all ?Q T0"
    by simp
  have primary': "PivotRootIsolator_Isolate w (args ! 0) T0 = (t2, Inr (Some e))"
    using primary unfolding T0_def .
  have legacy': "ChrootIsolator_Isolate w (args ! 0) (t2 @ [warn]) = (t3, Inr (Some e'))"
    using legacy unfolding warn_def .
  let ?k = "\<lambda>err. bindp (handle err) (\<lambda>_. bindp (mountProc w) (\<lambda>err. bindp (handle err)
              (\<lambda>_. bindp (cmd_Run w cmd) handle)))"
  have p': "bindp (PivotRootIsolator_Isolate w (args ! 0)) f T0 = f (Some e) t2"
    for f :: "error \<Rightarrow> unit proc"
    using primary' by (simp add: bindp_def)
  have "child w args [] = bindp (ChrootIsolator_Isolate w (args ! 0)) ?k (t2 @ [warn])"
    unfolding c0 by (simp add: isolate_and_launch_def p' warn_def del: bindp_cmd_Run)
  also have "\<dots> = ?k (Some e') t3"
    using legacy' by (rule bindp_Inr)
  also have "\<dots> = (t3 @ [Out ([CHR 0x0A] @ e' @ [CHR 0x0A])], Inl 1)"
    by simp
  finally have c: "child w args [] = (t3 @ [Out ([CHR 0x0A] @ e' @ [CHR 0x0A])], Inl 1)" .
  have prog: "program w (p # ''child'' # args) = (t3 @ [Out ([CHR 0x0A] @ e' @ [CHR 0x0A])], 1)"
    by (simp add: program_def main_def c)
  have "emits ?Q (PivotRootIsolator_Isolate w (args ! 0))"
    by (rule emits_PivotRootIsolator) simp_all
  then obtain evs2 where e2: "t2 = T0 @ evs2" "list_all ?Q evs2"
    using primary' unfolding emits_def by (metis fst_conv)
  have "emits ?Q (ChrootIsolator_Isolate w (args ! 0))"
    by (rule emits_ChrootIsolator) simp_all
  then obtain evs3 where e3: "t3 = (t2 @ [warn]) @ evs3" "list_all ?Q evs3"
    using legacy' unfolding emits_def by (metis fst_conv)
  have "list_all ?Q (t3 @ [Out ([CHR 0x0A] @ e' @ [CHR 0x0A])])"
    using q0 e2 e3 by (simp add: warn_def)
  with prog show ?thesis
    by simp
qed

theorem both_strategies_fail_witness:
  "2 \<le> length [''/tmp/r'', ''ls'']
   \<and> sys w_no_isolation [] (Stat ''/tmp/r'') = None
   \<and> snd (PivotRootIsolator_Isolate w_no_isolation ''/tmp/r''
            (fst (bindp (getCmdPath ''ls'') (\<lambda>binPath. exec_Command w_no_isolation binPath [])
                   [Sys (Stat ''/tmp/r'')])))
       = Inr (Some ''pivot_root failed: invalid argument'')
   \<and> program w_no_isolation [''shp'', ''child'', ''/tmp/r'', ''ls'']
       = ([Sys (Stat ''/tmp/r''),
           Out (''INFO: Resolving command [ls] inside /bin of the new rootfs.'' @ [CHR 0x0A]),
           Sys (MkdirAll ''/tmp/r/.old_root'' 448),
           Sys (PivotRoot ''/tmp/r'' ''/tmp/r/.old_root''),
           Out (''pivot_root failed: pivot_root failed: invalid argument'' @ [CHR 0x0A]
                @ ''Falling back to chroot...'' @ [CHR 0x0A]),
           Sys (Chroot ''/tmp/r''),
           Out ([CHR 0x0A] @ ''chroot failed: operation not permitted'' @ [CHR 0x0A])], 1)"
proof -
  let ?args = "[''/tmp/r'', ''ls'']"
  let ?t2 = "[Sys (Stat ''/tmp/r''),
           Out (''INFO: Resolving command [ls] inside /bin of the new rootfs.'' @ [CHR 0x0A]),
           Sys (MkdirAll ''/tmp/r/.old_root'' 448),
           Sys (PivotRoot ''/tmp/r'' ''/tmp/r/.old_root'')]"
  let ?e = "''pivot_root failed: invalid argument''"
  let ?warn = "Out (''pivot_root failed: '' @ ?e @ [CHR 0x0A]
                    @ ''Falling back to chroot...'' @ [CHR 0x0A])"
  let ?t3 = "?t2 @ [?warn, Sys (Chroot ''/tmp/r'')]"
  have h1: "2 \<le> length ?args"
    by simp
  have h2: "sys w_no_isolation [] (Stat (?args ! 0)) = None"
    by (simp add: w_no_isolation_def world_of_def)
  have h3: "PivotRootIsolator_Isolate w_no_isolation (?args ! 0)
              (fst (bindp (getCmdPath (?args ! 1))
                     (\<lambda>binPath. exec_Command w_no_isolation binPath (drop 2 ?args))
                     [Sys (Stat (?args ! 0))]))
            = (?t2, Inr (Some ?e))"
    by (simp add: shp_defs w_no_isolation_def)
  have h4: "ChrootIsolator_Isolate w_no_isolation (?args ! 0) (?t2 @ [?warn])
            = (?t3, Inr (Some ''chroot failed: operation not permitted''))"
    by (simp add: shp_defs w_no_isolation_def)
  from both_strategies_fail [OF h1 h2 h3 h4, of "''shp''"] h2 h3 show ?thesis
    by simp
qed

section \<open>The Launcher's exit code\<close>

lemma exec_Command_self:
  "exec_Command w ''/proc/self/exe'' arg
   = ret \<lparr>Path = ''/proc/self/exe'', Args = ''/proc/self/exe'' # arg, Stdin = None,
           Stdout = None, Stderr = None, Cloneflags = 0, Err = None\<rparr>"
proof -
  have "filepath_Base ''/proc/self/exe'' = ''exe''"
    by code_simp
  then show ?thesis
    by (simp add: exec_Command_def)
qed

lemma program_run:
  assumes "2 \<le> length args"
  shows "program w (p # ''run'' # args)
         = (let cmd = \<lparr>Path = ''/proc/self/exe'', Args = ''/proc/self/exe'' # ''child'' # args,
                      Stdin = Some os_Stdin, Stdout = Some os_Stdout, Stderr = Some os_Stderr,
                      Cloneflags = CLONE_NEWUTS OR CLONE_NEWPID OR CLONE_NEWNS, Err = None\<rparr>
            in case wait w [] cmd of
                 RunOk \<Rightarrow> ([Sys (Run cmd)], 0)
               | ExitError code msg \<Rightarrow>
                   ([Sys (Run cmd), Out ([CHR 0x0A] @ msg @ [CHR 0x0A])], 1)
               | RunFailed msg \<Rightarrow>
                   ([Sys (Run cmd), Out ([CHR 0x0A] @ msg @ [CHR 0x0A])], 1))"
  using assms
  by (simp add: program_def main_def run_def exec_Command_self Let_def
      split: run_result.splits)

text \<open>
  C3 as stated fails: the Init process exits with code 2 (what \<^verbatim>\<open>cmd.Run()\<close> reports as an
  \<^verbatim>\<open>*exec.ExitError\<close>), and the Launcher exits with code 1.
\<close>

theorem launcher_exit_code_counterexample:
  "wait w_exit_2 []
     \<lparr>Path = ''/proc/self/exe'', Args = [''/proc/self/exe'', ''child'', ''/tmp/r'', ''ls''],
      Stdin = Some os_Stdin, Stdout = Some os_Stdout, Stderr = Some os_Stderr,
      Cloneflags = CLONE_NEWUTS OR CLONE_NEWPID OR CLONE_NEWNS, Err = None\<rparr>
   = ExitError 2 ''exit status 2''
   \<and> snd (program w_exit_2 [''shp'', ''run'', ''/tmp/r'', ''ls'']) = 1"
  by (simp add: program_run w_exit_2_def world_of_def)

text \<open>
  C3, amended. On valid arguments (a root path and a command) the Launcher's exit code is 0
  when \<^verbatim>\<open>cmd.Run()\<close> reports that the Init process exited with status zero, and the fixed
  code 1 in every other case: the Init process exited with any other status, or could not
  be started. It equals the Init's exit code only when that code is 0 or 1.
\<close>

theorem launcher_exit_code:
  assumes "2 \<le> length args"
  shows "snd (program w (p # ''run'' # args))
         = (case wait w [] \<lparr>Path = ''/proc/self/exe'', Args = ''/proc/self/exe'' # ''child'' # args,
                      Stdin = Some os_Stdin, Stdout = Some os_Stdout, Stderr = Some os_Stderr,
                      Cloneflags = CLONE_NEWUTS OR CLONE_NEWPID OR CLONE_NEWNS, Err = None\<rparr> of
              RunOk \<Rightarrow> 0
            | ExitError code msg \<Rightarrow> 1
            | RunFailed msg \<Rightarrow> 1)"
  using assms by (simp add: program_run Let_def split: run_result.splits)

theorem launcher_exit_code_witness:
  "2 \<le> length [''/tmp/r'', ''ls'']
   \<and> snd (program w_all_ok [''shp'', ''run'', ''/tmp/r'', ''ls'']) = 0
   \<and> snd (program w_no_root [''shp'', ''run'', ''/tmp/r'', ''ls'']) = 1"
proof -
  have h: "2 \<le> length [''/tmp/r'', ''ls'']"
    by simp
  from launcher_exit_code [OF h, of w_all_ok "''shp''"]
       launcher_exit_code [OF h, of w_no_root "''shp''"]
  show ?thesis
    by (simp add: w_all_ok_def w_no_root_def world_of_def)
qed

section \<open>Validation and the namespaces\<close>

text \<open>
  C5 as stated fails: for \<^verbatim>\<open>shp run /tmp/does-not-exist /bin/true\<close>, with a root path that
  does not exist, the first and only system call of the Launcher is the spawn with the three
  namespace flags; no validation of the root path precedes it.
\<close>

theorem validation_order_counterexample:
  "sys w_no_root [] (Stat ''/tmp/does-not-exist'')
   = Some ''stat /tmp/does-not-exist: no such file or directory''
   \<and> program w_no_root [''shp'', ''run'', ''/tmp/does-not-exist'', ''/bin/true'']
     = ([Sys (Run \<lparr>Path = ''/proc/self/exe'',
                    Args = [''/proc/self/exe'', ''child'', ''/tmp/does-not-exist'', ''/bin/true''],
                    Stdin = Some os_Stdin, Stdout = Some os_Stdout, Stderr = Some os_Stderr,
                    Cloneflags = CLONE_NEWUTS OR CLONE_NEWPID OR CLONE_NEWNS, Err = None\<rparr>),
         Out ([CHR 0x0A] @ ''exit status 1'' @ [CHR 0x0A])], 1)"
  by (simp add: program_run w_no_root_def world_of_def)

text \<open>
  C5, amended. In the Init role (\<^verbatim>\<open>shp child\<close>) a root path whose \<^verbatim>\<open>stat\<close> fails is rejected
  with a fatal error (exit code 1) before any isolation call: the \<^verbatim>\<open>stat\<close> is the only
  system call of the process. The Launcher role (\<^verbatim>\<open>shp run\<close>) does not validate the root
  path: its first event is the spawn that requests the new namespaces, whatever the path.
\<close>

theorem validation_precedes_isolation:
  assumes "2 \<le> length args" and "sys w [] (Stat (args ! 0)) = Some e"
  shows "program w (p # ''child'' # args)
         = ([Sys (Stat (args ! 0)),
             Out ([CHR 0x0A] @ ''rootfs path does not exist: '' @ args ! 0 @ '': '' @ e
                  @ [CHR 0x0A])], 1)
         \<and> hd (fst (program w (p # ''run'' # args)))
           = Sys (Run \<lparr>Path = ''/proc/self/exe'', Args = ''/proc/self/exe'' # ''child'' # args,
                      Stdin = Some os_Stdin, Stdout = Some os_Stdout, Stderr = Some os_Stderr,
                      Cloneflags = CLONE_NEWUTS OR CLONE_NEWPID OR CLONE_NEWNS, Err = None\<rparr>)"
  using assms
  by (simp add: program_run Let_def split: run_result.splits)
     (simp add: program_def main_def child_def validateRootfs_def Let_def)

theorem validation_precedes_isolation_witness:
  "2 \<le> length [''/tmp/does-not-exist'', ''/bin/true'']
   \<and> sys w_no_root [] (Stat ''/tmp/does-not-exist'')
     = Some ''stat /tmp/does-not-exist: no such file or directory''
   \<and> program w_no_root [''shp'', ''child'', ''/tmp/does-not-exist'', ''/bin/true'']
     = ([Sys (Stat ''/tmp/does-not-exist''),
         Out ([CHR 0x0A]
              @ ''rootfs path does not exist: /tmp/does-not-exist: ''
              @ ''stat /tmp/does-not-exist: no such file or directory''
              @ [CHR 0x0A])], 1)"
proof -
  let ?args = "[''/tmp/does-not-exist'', ''/bin/true'']"
  have h1: "2 \<le> length ?args"
    by simp
  have h2: "sys w_no_root [] (Stat (?args ! 0))
            = Some ''stat /tmp/does-not-exist: no such file or directory''"
    by (simp add: w_no_root_def world_of_def)
  from validation_precedes_isolation [OF h1 h2, of "''shp''"] h2 show ?thesis
    by simp
qed

section \<open>Unknown subcommands\<close>

text \<open>
  C7 on the code: an invocation with no subcommand, or with a first argument other than
  \<^verbatim>\<open>run\<close> and \<^verbatim>\<open>child\<close>, prints the usage text and \<^verbatim>\<open>main\<close> returns, so the exit code is 0.
\<close>

theorem usage_exit_code:
  assumes "length argv < 2 \<or> (argv ! 1 \<noteq> ''run'' \<and> argv ! 1 \<noteq> ''child'')"
  shows "program w argv = ([Out (usage_run @ [CHR 0x0A])], 0)"
  using assms by (auto simp: program_def main_def Println_def Print_def)

theorem usage_exit_code_witness:
  "(length [''shp'', ''start''] < 2
      \<or> ([''shp'', ''start''] ! 1 \<noteq> ''run'' \<and> [''shp'', ''start''] ! 1 \<noteq> ''child''))
   \<and> program w_all_ok [''shp'', ''start'']
     = ([Out (''usage: shp run <rootfs_path> <cmd> [options]'' @ [CHR 0x0A])], 0)
   \<and> program w_all_ok [''shp'']
     = ([Out (''usage: shp run <rootfs_path> <cmd> [options]'' @ [CHR 0x0A])], 0)"
proof -
  have h1: "length [''shp'', ''start''] < 2
      \<or> ([''shp'', ''start''] ! 1 \<noteq> ''run'' \<and> [''shp'', ''start''] ! 1 \<noteq> ''child'')"
    by simp
  have h2: "length [''shp''] < 2 \<or> ([''shp''] ! 1 \<noteq> ''run'' \<and> [''shp''] ! 1 \<noteq> ''child'')"
    by simp
  from usage_exit_code [OF h1, of w_all_ok] usage_exit_code [OF h2, of w_all_ok] h1
  show ?thesis
    by (simp add: usage_run_def)
qed

text \<open>The usage errors of \<^verbatim>\<open>run\<close> and \<^verbatim>\<open>child\<close> (fewer than two arguments) print the
  usage text and exit with code 1.\<close>

lemma run_and_child_usage_exit_1:
  assumes "length args < 2"
  shows "program w (p # ''run'' # args) = ([Out (usage_run @ [CHR 0x0A])], 1)"
    and "program w (p # ''child'' # args) = ([Out (usage_child @ [CHR 0x0A])], 1)"
  using assms by (simp_all add: program_def main_def run_def child_def os_Exit_def)

section \<open>The launch of the target command\<close>




text \<open>For the command \<^verbatim>\<open>..\<close> the resolved path is \<^verbatim>\<open>/\<close>: \<^verbatim>\<open>exec.Command\<close> looks it up
  before the isolation, the lookup finds a directory, and \<^verbatim>\<open>cmd.Run()\<close> returns the stored
  error without starting a process.\<close>

lemma launch_of_root_directory:
  "program w_all_ok [''shp'', ''child'', ''/tmp/r'', ''..'']
   = ([Sys (Stat ''/tmp/r''),
       Out (''INFO: Resolving command [..] inside /bin of the new rootfs.'' @ [CHR 0x0A]),
       Sys (LookPath ''/''),
       Sys (MkdirAll ''/tmp/r/.old_root'' 448),
       Sys (PivotRoot ''/tmp/r'' ''/tmp/r/.old_root''), Sys (Chdir ''/''),
       Sys (Unmount ''/.old_root'' 2), Sys (Remove ''/.old_root''),
       Out (''Successfully using pivot_root'' @ [CHR 0x0A]),
       Sys (Mount ''proc'' ''proc'' ''proc'' 0 []),
       Out ([CHR 0x0A] @ ''exec: '' @ [CHR 0x22] @ ''/'' @ [CHR 0x22] @ '': is a directory''
            @ [CHR 0x0A])], 1)"
  by code_simp

section \<open>The resolution of the command path, and when it happens\<close>

text \<open>
  C6 as stated fails: the command \<^verbatim>\<open>..\<close> has no path separator and is resolved to \<^verbatim>\<open>/\<close>,
  not to \<^verbatim>\<open>/bin/..\<close>, because \<^verbatim>\<open>filepath.Join\<close> cleans the joined path.
\<close>

theorem bare_command_counterexample:
  "CHR ''/'' \<notin> set ''..'' \<and> snd (getCmdPath ''..'' []) = Inr ''/''"
  by code_simp

text \<open>The empty command and the command \<^verbatim>\<open>.\<close> are both resolved to \<^verbatim>\<open>/bin\<close>.\<close>

lemma bare_command_other_cases:
  "snd (getCmdPath [] []) = Inr ''/bin''" "snd (getCmdPath ''.'' []) = Inr ''/bin''"
  by code_simp+

text \<open>
  C6, amended. A command with no path separator that is not empty, \<^verbatim>\<open>.\<close> or \<^verbatim>\<open>..\<close> is
  rewritten to \<^verbatim>\<open>/bin/<name>\<close> (with the INFO message); a command with a path separator is
  passed through unchanged, with the warning that it is resolved in the new root; and in
  the Init role, once validation has passed, the resolution comes before the isolation
  step: its message is followed by the first call of the isolation step (the \<^verbatim>\<open>getwd\<close> of a
  relative root path, or the creation of the holding directory), with nothing in between
  but the lookup of the executable that \<^verbatim>\<open>exec.Command\<close> makes when the resolved path is
  \<^verbatim>\<open>/\<close>.
\<close>

theorem command_path_resolution:
  "(CHR ''/'' \<notin> set c \<and> c \<noteq> [] \<and> c \<noteq> ''.'' \<and> c \<noteq> ''..'' \<longrightarrow>
      getCmdPath c t
      = (t @ [Out (''INFO: Resolving command ['' @ c @ ''] inside /bin of the new rootfs.''
                   @ [CHR 0x0A])],
         Inr (''/bin/'' @ c)))
   \<and> (CHR ''/'' \<in> set c \<longrightarrow>
      getCmdPath c t
      = (t @ [Out (''WARNING! Absolute path resolution for ['' @ c
                   @ ''] will be done based on the new rootfs (inside container).''
                   @ [CHR 0x0A])],
         Inr c))
   \<and> (2 \<le> length args \<and> sys w [] (Stat (args ! 0)) = None \<longrightarrow>
      (\<exists>b rest.
         snd (getCmdPath (args ! 1) []) = Inr b
         \<and> fst (child w args [])
           = fst (getCmdPath (args ! 1) [Sys (Stat (args ! 0))])
             @ (if b = ''/'' then [Sys (LookPath ''/'')] else [])
             @ (if filepath_IsAbs (args ! 0)
                then Sys (MkdirAll (filepath_Join [filepath_Clean (args ! 0), oldRootDir]) 448)
                else Sys Getwd) # rest))"
proof (intro conjI impI)
  assume "CHR ''/'' \<notin> set c \<and> c \<noteq> [] \<and> c \<noteq> ''.'' \<and> c \<noteq> ''..''"
  then show "getCmdPath c t
      = (t @ [Out (''INFO: Resolving command ['' @ c @ ''] inside /bin of the new rootfs.''
                   @ [CHR 0x0A])],
         Inr (''/bin/'' @ c))"
    using strings_Split_many [of c "CHR ''/''"]
    by (simp add: getCmdPath_def Let_def ret_def filepath_Join_bin)
next
  assume "CHR ''/'' \<in> set c"
  then show "getCmdPath c t
      = (t @ [Out (''WARNING! Absolute path resolution for ['' @ c
                   @ ''] will be done based on the new rootfs (inside container).''
                   @ [CHR 0x0A])],
         Inr c)"
    using strings_Split_many [of c "CHR ''/''"]
    by (simp add: getCmdPath_def Let_def ret_def)
next
  assume a: "2 \<le> length args \<and> sys w [] (Stat (args ! 0)) = None"
  let ?e0 = "if filepath_IsAbs (args ! 0)
             then Sys (MkdirAll (filepath_Join [filepath_Clean (args ! 0), oldRootDir]) 448)
             else Sys Getwd"
  define T0 where
    "T0 = fst (bindp (getCmdPath (args ! 1)) (\<lambda>binPath. exec_Command w binPath (drop 2 args))
                [Sys (Stat (args ! 0))])"
  define G where "G = fst (getCmdPath (args ! 1) [Sys (Stat (args ! 0))])"
  obtain b cmd where b: "snd (getCmdPath (args ! 1) []) = Inr b"
    and T0: "T0 = G @ (if b = ''/'' then [Sys (LookPath ''/'')] else [])"
    and ch: "child w args [] = isolate_and_launch w (args ! 0) cmd T0"
    using a child_at_isolation [of args w] unfolding T0_def G_def by blast
  have "emits (\<lambda>ev. True)
          (bindp (case err of
                    Some e \<Rightarrow>
                      bindp (Print (''pivot_root failed: '' @ e @ [CHR 0x0A]
                                    @ ''Falling back to chroot...'' @ [CHR 0x0A])) (\<lambda>_.
                        bindp (ChrootIsolator_Isolate w (args ! 0)) handle)
                  | None \<Rightarrow> ret ()) (\<lambda>_.
                 bindp (bindp (mountProc w) handle) (\<lambda>_.
                 bindp (cmd_Run w cmd) handle)))" for err
    unfolding mountProc_def
    by (intro emits_intros emits_handle emits_True_ChrootIsolator) simp_all
  then have "starts_with ?e0 (isolate_and_launch w (args ! 0) cmd)"
    unfolding isolate_and_launch_def
    by (intro starts_with_bindp starts_with_PivotRootIsolator)
  then obtain rest where "fst (isolate_and_launch w (args ! 0) cmd T0) = T0 @ ?e0 # rest"
    unfolding starts_with_def by blast
  with ch T0 b show "\<exists>b rest.
         snd (getCmdPath (args ! 1) []) = Inr b
         \<and> fst (child w args [])
           = fst (getCmdPath (args ! 1) [Sys (Stat (args ! 0))])
             @ (if b = ''/'' then [Sys (LookPath ''/'')] else []) @ ?e0 # rest"
    unfolding G_def by (intro exI [of _ b] exI [of _ rest]) simp
qed

theorem command_path_resolution_witness:
  "(CHR ''/'' \<notin> set ''ls'' \<and> ''ls'' \<noteq> [] \<and> ''ls'' \<noteq> ''.'' \<and> ''ls'' \<noteq> ''..'')
   \<and> snd (getCmdPath ''ls'' []) = Inr ''/bin/ls''
   \<and> CHR ''/'' \<in> set ''usr/bin/env''
   \<and> snd (getCmdPath ''usr/bin/env'' []) = Inr ''usr/bin/env''
   \<and> 2 \<le> length [''/tmp/r'', ''ls'']
   \<and> sys w_all_ok [] (Stat ''/tmp/r'') = None
   \<and> (\<exists>rest. fst (child w_all_ok [''/tmp/r'', ''ls''] [])
         = [Sys (Stat ''/tmp/r''),
            Out (''INFO: Resolving command [ls] inside /bin of the new rootfs.'' @ [CHR 0x0A]),
            Sys (MkdirAll ''/tmp/r/.old_root'' 448)] @ rest)"
proof -
  have h1: "CHR ''/'' \<notin> set ''ls'' \<and> ''ls'' \<noteq> [] \<and> ''ls'' \<noteq> ''.'' \<and> ''ls'' \<noteq> ''..''"
    by simp
  have h2: "CHR ''/'' \<in> set ''usr/bin/env''"
    by simp
  have h3: "2 \<le> length [''/tmp/r'', ''ls'']
            \<and> sys w_all_ok [] (Stat ([''/tmp/r'', ''ls''] ! 0)) = None"
    by (simp add: w_all_ok_def world_of_def)
  have j: "filepath_Join [filepath_Clean ''/tmp/r'', oldRootDir] = ''/tmp/r/.old_root''"
    by code_simp
  note r = command_path_resolution [of "''ls''" "[]" "[''/tmp/r'', ''ls'']" w_all_ok]
    command_path_resolution [of "''usr/bin/env''" "[]" "[''/tmp/r'', ''ls'']" w_all_ok]
  from r(1) h1 have a: "getCmdPath ''ls'' []
      = ([] @ [Out (''INFO: Resolving command ['' @ ''ls''
                    @ ''] inside /bin of the new rootfs.'' @ [CHR 0x0A])],
         Inr (''/bin/'' @ ''ls''))"
    by blast
  from r(2) h2 have b: "getCmdPath ''usr/bin/env'' []
      = ([] @ [Out (''WARNING! Absolute path resolution for ['' @ ''usr/bin/env''
                   @ ''] will be done based on the new rootfs (inside container).''
                   @ [CHR 0x0A])],
         Inr ''usr/bin/env'')"
    by blast
  from r(1) h3 obtain b' rest where
    c: "snd (getCmdPath ([''/tmp/r'', ''ls''] ! 1) []) = Inr b'"
       "fst (child w_all_ok [''/tmp/r'', ''ls''] [])
         = fst (getCmdPath ([''/tmp/r'', ''ls''] ! 1) [Sys (Stat ([''/tmp/r'', ''ls''] ! 0))])
           @ (if b' = ''/'' then [Sys (LookPath ''/'')] else [])
           @ (if filepath_IsAbs ([''/tmp/r'', ''ls''] ! 0)
              then Sys (MkdirAll (filepath_Join [filepath_Clean ([''/tmp/r'', ''ls''] ! 0),
                                                 oldRootDir]) 448)
              else Sys Getwd) # rest"
    by blast
  have d: "fst (getCmdPath ''ls'' [Sys (Stat ''/tmp/r'')])
           = [Sys (Stat ''/tmp/r''),
              Out (''INFO: Resolving command [ls] inside /bin of the new rootfs.''
                   @ [CHR 0x0A])]"
    by (simp add: shp_defs)
  have b': "b' = ''/bin/ls''"
    using c(1) a by simp
  from c(2) have "\<exists>rest. fst (child w_all_ok [''/tmp/r'', ''ls''] [])
         = [Sys (Stat ''/tmp/r''),
            Out (''INFO: Resolving command [ls] inside /bin of the new rootfs.'' @ [CHR 0x0A]),
            Sys (MkdirAll ''/tmp/r/.old_root'' 448)] @ rest"
    by (simp add: d j b' filepath_IsAbs_def)
  with a b h1 h2 h3 show ?thesis
    by simp
qed

section \<open>The cleanup after the root swap\<close>

text \<open>
  C9. In the pivot_root strategy, once the absolute path is known, the holding directory is
  created, and the root swap and the change of directory to \<^verbatim>\<open>/\<close> have succeeded, the strategy
  returns \<^verbatim>\<open>nil\<close> whatever the lazy unmount of \<^verbatim>\<open>/.old_root\<close> and its removal answer: a
  failure of either adds one warning line to the output and nothing else; the calls that
  follow are the same, and no call undoes the root swap.
\<close>

theorem cleanup_best_effort:
  assumes abs: "filepath_Abs w rootfs t = (t1, Inr (Inr a))"
    and mk: "sys w t1 (MkdirAll (filepath_Join [a, oldRootDir]) 448) = None"
    and pv: "sys w (t1 @ [Sys (MkdirAll (filepath_Join [a, oldRootDir]) 448)])
               (PivotRoot a (filepath_Join [a, oldRootDir])) = None"
    and cd: "sys w (t1 @ [Sys (MkdirAll (filepath_Join [a, oldRootDir]) 448),
                          Sys (PivotRoot a (filepath_Join [a, oldRootDir]))])
               (Chdir ''/'') = None"
  shows "PivotRootIsolator_Isolate w rootfs t
         = (let t4 = t1 @ [Sys (MkdirAll (filepath_Join [a, oldRootDir]) 448),
                           Sys (PivotRoot a (filepath_Join [a, oldRootDir])),
                           Sys (Chdir ''/'')];
                u = sys w t4 (Unmount ''/.old_root'' 2);
                t5 = t4 @ [Sys (Unmount ''/.old_root'' 2)]
                     @ (case u of
                          None \<Rightarrow> []
                        | Some e \<Rightarrow> [Out (''Warning: unmounting old root failed: '' @ e
                                           @ [CHR 0x0A])]);
                r = sys w t5 (Remove ''/.old_root'');
                t6 = t5 @ [Sys (Remove ''/.old_root'')]
                     @ (case r of
                          None \<Rightarrow> []
                        | Some e \<Rightarrow> [Out (''Warning: removing old root directory failed: ''
                                           @ e @ [CHR 0x0A])])
            in (t6 @ [Out (''Successfully using pivot_root'' @ [CHR 0x0A])], Inr None))"
proof -
  have a': "bindp (filepath_Abs w rootfs) f t = f (Inr a) t1"
    for f :: "string + string \<Rightarrow> error proc"
    using abs by (simp add: bindp_def)
  have "PivotRootIsolator_Isolate w rootfs t
        = pivot_cleanup w (t1 @ [Sys (MkdirAll (filepath_Join [a, oldRootDir]) 448),
                                 Sys (PivotRoot a (filepath_Join [a, oldRootDir])),
                                 Sys (Chdir ''/'')])"
    using mk pv cd by (simp add: PivotRootIsolator_Isolate_def Let_def a')
  then show ?thesis
    by (simp add: pivot_cleanup_def Let_def ret_def oldRootDir_def MNT_DETACH_def
        split: option.splits)
qed

theorem cleanup_best_effort_witness:
  "filepath_Abs w_cleanup_fails ''/tmp/r'' [] = ([], Inr (Inr ''/tmp/r''))
   \<and> sys w_cleanup_fails [] (MkdirAll ''/tmp/r/.old_root'' 448) = None
   \<and> sys w_cleanup_fails [Sys (MkdirAll ''/tmp/r/.old_root'' 448)]
         (PivotRoot ''/tmp/r'' ''/tmp/r/.old_root'') = None
   \<and> sys w_cleanup_fails [Sys (MkdirAll ''/tmp/r/.old_root'' 448),
                           Sys (PivotRoot ''/tmp/r'' ''/tmp/r/.old_root'')]
         (Chdir ''/'') = None
   \<and> PivotRootIsolator_Isolate w_cleanup_fails ''/tmp/r'' []
     = ([Sys (MkdirAll ''/tmp/r/.old_root'' 448),
         Sys (PivotRoot ''/tmp/r'' ''/tmp/r/.old_root''),
         Sys (Chdir ''/''),
         Sys (Unmount ''/.old_root'' 2),
         Out (''Warning: unmounting old root failed: device or resource busy'' @ [CHR 0x0A]),
         Sys (Remove ''/.old_root''),
         Out (''Warning: removing old root directory failed: ''
              @ ''remove /.old_root: directory not empty'' @ [CHR 0x0A]),
         Out (''Successfully using pivot_root'' @ [CHR 0x0A])], Inr None)"
proof -
  have j: "filepath_Join [''/tmp/r'', oldRootDir] = ''/tmp/r/.old_root''"
    by code_simp
  have h1: "filepath_Abs w_cleanup_fails ''/tmp/r'' [] = ([], Inr (Inr ''/tmp/r''))"
    by (simp add: shp_defs)
  have s: "sys w_cleanup_fails h c
           = (case c of
                Unmount a fl \<Rightarrow> Some ''device or resource busy''
              | Remove a \<Rightarrow> Some (''remove '' @ a @ '': directory not empty'')
              | _ \<Rightarrow> None)" for h c
    by (cases c) (simp_all add: w_cleanup_fails_def world_of_def)
  have h2: "sys w_cleanup_fails [] (MkdirAll (filepath_Join [''/tmp/r'', oldRootDir]) 448)
            = None"
    by (simp add: s)
  have h3: "sys w_cleanup_fails ([] @ [Sys (MkdirAll (filepath_Join [''/tmp/r'', oldRootDir]) 448)])
               (PivotRoot ''/tmp/r'' (filepath_Join [''/tmp/r'', oldRootDir])) = None"
    by (simp add: s)
  have h4: "sys w_cleanup_fails ([] @ [Sys (MkdirAll (filepath_Join [''/tmp/r'', oldRootDir]) 448),
                          Sys (PivotRoot ''/tmp/r'' (filepath_Join [''/tmp/r'', oldRootDir]))])
               (Chdir ''/'') = None"
    by (simp add: s)
  from cleanup_best_effort [OF h1 h2 h3 h4] h1 show ?thesis
    by (simp add: s j Let_def)
qed

section \<open>The holding directory after a failed root swap\<close>

lemma dirs_after_append:
  "dirs_after w h (xs @ ys) D = dirs_after w (h @ xs) ys (dirs_after w h xs D)"
  by (induction xs arbitrary: h D) simp_all

text \<open>
  C10. When the pivot_root strategy has created the holding directory \<^verbatim>\<open>.old_root\<close> (mode
  0700) inside the new root and the root swap then fails, \<^verbatim>\<open>child\<close> goes on to \<^verbatim>\<open>chroot\<close>
  without removing it: the only events between its creation and the \<^verbatim>\<open>chroot\<close> call are the
  failed \<^verbatim>\<open>pivot_root\<close> and the warning, and the directory exists when \<^verbatim>\<open>chroot\<close> is called,
  whatever directories \<open>D\<close> existed at the start.
\<close>

theorem old_root_left_behind:
  assumes len: "2 \<le> length args"
    and valid: "sys w [] (Stat (args ! 0)) = None"
    and abs: "filepath_Abs w (args ! 0)
                (fst (bindp (getCmdPath (args ! 1))
                       (\<lambda>binPath. exec_Command w binPath (drop 2 args))
                       [Sys (Stat (args ! 0))]))
              = (t1, Inr (Inr a))"
    and mk: "sys w t1 (MkdirAll (filepath_Join [a, oldRootDir]) 448) = None"
    and pv: "sys w (t1 @ [Sys (MkdirAll (filepath_Join [a, oldRootDir]) 448)])
               (PivotRoot a (filepath_Join [a, oldRootDir])) = Some e"
  shows "\<exists>rest.
           fst (child w args [])
           = (t1 @ [Sys (MkdirAll (filepath_Join [a, oldRootDir]) 448),
                    Sys (PivotRoot a (filepath_Join [a, oldRootDir])),
                    Out (''pivot_root failed: '' @ (''pivot_root failed: '' @ e) @ [CHR 0x0A]
                         @ ''Falling back to chroot...'' @ [CHR 0x0A])])
             @ Sys (Chroot (args ! 0)) # rest
           \<and> filepath_Join [a, oldRootDir]
             \<in> dirs_after w []
                 (t1 @ [Sys (MkdirAll (filepath_Join [a, oldRootDir]) 448),
                        Sys (PivotRoot a (filepath_Join [a, oldRootDir])),
                        Out (''pivot_root failed: '' @ (''pivot_root failed: '' @ e)
                             @ [CHR 0x0A] @ ''Falling back to chroot...'' @ [CHR 0x0A])]) D"
proof -
  let ?old = "filepath_Join [a, oldRootDir]"
  let ?t2 = "t1 @ [Sys (MkdirAll ?old 448), Sys (PivotRoot a ?old)]"
  let ?e = "''pivot_root failed: '' @ e"
  define T0 where
    "T0 = fst (bindp (getCmdPath (args ! 1)) (\<lambda>binPath. exec_Command w binPath (drop 2 args))
                [Sys (Stat (args ! 0))])"
  obtain cmd where ch: "child w args [] = isolate_and_launch w (args ! 0) cmd T0"
    using child_at_isolation [OF len valid] unfolding T0_def by blast
  have abs': "filepath_Abs w (args ! 0) T0 = (t1, Inr (Inr a))"
    using abs unfolding T0_def .
  have a': "bindp (filepath_Abs w (args ! 0)) f T0 = f (Inr a) t1"
    for f :: "string + string \<Rightarrow> error proc"
    using abs' by (simp add: bindp_def)
  have primary: "PivotRootIsolator_Isolate w (args ! 0) T0 = (?t2, Inr (Some ?e))"
    using mk pv by (simp add: PivotRootIsolator_Isolate_def Let_def a' ret_def)
  have tr: "\<exists>rest. fst (child w args [])
              = ?t2 @ [Out (''pivot_root failed: '' @ ?e @ [CHR 0x0A]
                            @ ''Falling back to chroot...'' @ [CHR 0x0A]),
                       Sys (Chroot (args ! 0))] @ rest"
    unfolding ch by (rule fallback_trace [OF primary])
  have "?old \<in> dirs_after w [] (t1 @ [Sys (MkdirAll ?old 448), Sys (PivotRoot a ?old),
                                       Out (''pivot_root failed: '' @ ?e @ [CHR 0x0A]
                                            @ ''Falling back to chroot...'' @ [CHR 0x0A])]) D"
    using mk by (simp add: dirs_after_append)
  with tr show ?thesis
    by simp
qed

theorem old_root_left_behind_witness:
  "2 \<le> length [''/tmp/r'', ''ls'']
   \<and> sys w_same_fs [] (Stat ''/tmp/r'') = None
   \<and> filepath_Abs w_same_fs ''/tmp/r''
       (fst (bindp (getCmdPath ''ls'') (\<lambda>binPath. exec_Command w_same_fs binPath [])
              [Sys (Stat ''/tmp/r'')]))
     = ([Sys (Stat ''/tmp/r''),
         Out (''INFO: Resolving command [ls] inside /bin of the new rootfs.'' @ [CHR 0x0A])],
        Inr (Inr ''/tmp/r''))
   \<and> sys w_same_fs
         [Sys (Stat ''/tmp/r''),
          Out (''INFO: Resolving command [ls] inside /bin of the new rootfs.'' @ [CHR 0x0A]),
          Sys (MkdirAll ''/tmp/r/.old_root'' 448)]
         (PivotRoot ''/tmp/r'' ''/tmp/r/.old_root'') = Some ''invalid argument''
   \<and> (\<exists>rest.
         fst (child w_same_fs [''/tmp/r'', ''ls''] [])
         = [Sys (Stat ''/tmp/r''),
            Out (''INFO: Resolving command [ls] inside /bin of the new rootfs.'' @ [CHR 0x0A]),
            Sys (MkdirAll ''/tmp/r/.old_root'' 448),
            Sys (PivotRoot ''/tmp/r'' ''/tmp/r/.old_root''),
            Out (''pivot_root failed: pivot_root failed: invalid argument'' @ [CHR 0x0A]
                 @ ''Falling back to chroot...'' @ [CHR 0x0A]),
            Sys (Chroot ''/tmp/r'')] @ rest)
   \<and> ''/tmp/r/.old_root''
     \<in> dirs_after w_same_fs []
         [Sys (Stat ''/tmp/r''),
          Out (''INFO: Resolving command [ls] inside /bin of the new rootfs.'' @ [CHR 0x0A]),
          Sys (MkdirAll ''/tmp/r/.old_root'' 448),
          Sys (PivotRoot ''/tmp/r'' ''/tmp/r/.old_root''),
          Out (''pivot_root failed: pivot_root failed: invalid argument'' @ [CHR 0x0A]
               @ ''Falling back to chroot...'' @ [CHR 0x0A])] {}"
proof -
  let ?args = "[''/tmp/r'', ''ls'']"
  let ?t1 = "[Sys (Stat ''/tmp/r''),
         Out (''INFO: Resolving command [ls] inside /bin of the new rootfs.'' @ [CHR 0x0A])]"
  have j: "filepath_Join [''/tmp/r'', oldRootDir] = ''/tmp/r/.old_root''"
    by code_simp
  have s: "sys w_same_fs h c
           = (case c of PivotRoot a b \<Rightarrow> Some ''invalid argument'' | _ \<Rightarrow> None)" for h c
    by (simp add: w_same_fs_def world_of_def)
  have h1: "2 \<le> length ?args"
    by simp
  have h2: "sys w_same_fs [] (Stat (?args ! 0)) = None"
    by (simp add: s)
  have h3: "filepath_Abs w_same_fs (?args ! 0)
              (fst (bindp (getCmdPath (?args ! 1))
                     (\<lambda>binPath. exec_Command w_same_fs binPath (drop 2 ?args))
                     [Sys (Stat (?args ! 0))]))
            = (?t1, Inr (Inr ''/tmp/r''))"
    by (simp add: shp_defs)
  have h4: "sys w_same_fs ?t1 (MkdirAll (filepath_Join [''/tmp/r'', oldRootDir]) 448) = None"
    by (simp add: s)
  have h5: "sys w_same_fs (?t1 @ [Sys (MkdirAll (filepath_Join [''/tmp/r'', oldRootDir]) 448)])
               (PivotRoot ''/tmp/r'' (filepath_Join [''/tmp/r'', oldRootDir]))
            = Some ''invalid argument''"
    by (simp add: s)
  from old_root_left_behind [OF h1 h2 h3 h4 h5, of "{}"] h2 h3 show ?thesis
    by (simp add: s j)
qed

end
